theory Spec2Isabelle
  imports Complex_Main
begin

section \<open>Scene data read by the renderer\<close>

text \<open>
  The renderer of \<^verbatim>\<open>src/SkiaRenderer.ts\<close> reads a PIXI display tree and writes to
  three places: the Skia canvas, a jsPDF document and the event emitters of the nodes.
  JavaScript numbers are modelled as reals. The values PIXI computes for a node
  (\<^verbatim>\<open>worldTransform\<close>, \<^verbatim>\<open>getBounds()\<close>) are fields of the node, as the code reads them.
\<close>

text \<open>\<^verbatim>\<open>PIXI.Matrix\<close>: the code reads \<^verbatim>\<open>a\<close>, \<^verbatim>\<open>d\<close>, \<^verbatim>\<open>tx\<close> and \<^verbatim>\<open>ty\<close> only.\<close>

record matrix =
  m_a :: real
  m_b :: real
  m_c :: real
  m_d :: real
  m_tx :: real
  m_ty :: real

text \<open>A rectangle given by corner and size: the result of \<^verbatim>\<open>getBounds()\<close> and of \<^verbatim>\<open>XYWHRect\<close>.\<close>

record rect =
  rect_x :: real
  rect_y :: real
  rect_width :: real
  rect_height :: real

record point =
  pt_x :: real
  pt_y :: real

text \<open>
  \<^verbatim>\<open>data.shape\<close>: the code tests \<^verbatim>\<open>instanceof PIXI.Rectangle\<close>, then
  \<^verbatim>\<open>instanceof PIXI.Circle\<close>, and reads no field of any other shape class.
\<close>

datatype shape =
  Rectangle real real real real
  | Circle real real real
  | Polygon
  | Ellipse
  | RoundedRectangle

text \<open>One entry of \<^verbatim>\<open>geometry.graphicsData\<close>, with its line style and fill style.\<close>

record graphicsData =
  gd_shape :: shape
  line_visible :: bool
  line_color :: nat
  line_width :: real
  fill_visible :: bool
  fill_color :: nat
  gd_points :: "real list"

text \<open>The fields of a display object that the code reads on graphics and on sprites.\<close>

record displayObject =
  worldTransform :: matrix
  angle :: real
  bounds :: rect

record graphics = displayObject +
  graphicsData :: "graphicsData list"
  position :: point
  scale :: point

text \<open>A decoded Skia image is an opaque handle.\<close>

datatype image = SkImage nat

text \<open>
  A sprite. \<open>resource\<close> is \<open>None\<close> when \<^verbatim>\<open>texture.baseTexture.resource\<close> is null, so that the
  read of its \<^verbatim>\<open>url\<close> throws; otherwise it is the \<^verbatim>\<open>url\<close> of the resource, the empty
  string when the resource has none.
\<close>

record sprite = displayObject +
  resource :: "string option"
  worldAlpha :: real
  tint :: nat
  base_width :: real
  base_height :: real

text \<open>
  A child of a container, in the order of the \<^verbatim>\<open>instanceof\<close> chain. The children of a
  graphics or sprite node are never visited by any walker, so they are not part of the
  node.
\<close>

datatype node =
  Graphics graphics
  | Sprite sprite
  | Container "node list"

section \<open>The output devices\<close>

datatype paintStyle = Fill | Stroke

record paint =
  paint_style :: paintStyle
  paint_color :: "real \<times> real \<times> real \<times> real"
  paint_strokeWidth :: real

text \<open>The paint made afresh for each sprite.\<close>

record spritePaint =
  sp_alpha :: real
  sp_colorFilter :: "real list option"

text \<open>
  A path command. \<^verbatim>\<open>data.points[i + 1]\<close> is \<^verbatim>\<open>undefined\<close> past the end of the array
  and the sum is then \<^verbatim>\<open>NaN\<close>: the second coordinate of \<open>LineTo\<close> is \<open>None\<close> there.
\<close>

datatype pathCmd =
  MoveTo real real
  | LineTo real "real option"
  | AddRect real real real real
  | AddCircle real real real

text \<open>The calls on \<^verbatim>\<open>skCanvas\<close> and on the surface, in the order they are made.\<close>

datatype canvasOp =
  Save
  | Restore
  | Rotate real real real
  | DrawColorWhite
  | DrawPath "pathCmd list" paint
  | DrawImageRect image rect rect spritePaint
  | Flush

text \<open>The calls on the jsPDF document.\<close>

datatype pdfOp =
  SetDrawColor nat nat nat
  | SetLineWidth real
  | Line real real real real
  | SetFillColor nat nat nat
  | PdfRect real real real real string
  | PdfCircle real real real string
  | AddImage string string real real real real real

record pdfDoc =
  orientation :: string
  format :: "real \<times> real"
  pdfOps :: "pdfOp list"

text \<open>
  The renderer object: the fields of \<^verbatim>\<open>SkiaRendererImpl\<close>, the log of canvas calls, the
  log of image loads started (\<^verbatim>\<open>img.src = url\<close>) and the console.
\<close>

record renderer =
  container :: "node list"
  width :: real
  height :: real
  the_paint :: paint
  imageCache :: "string \<Rightarrow> image option"
  canvasLog :: "canvasOp list"
  loadsStarted :: "string list"
  console :: "string list"

text \<open>The one exception the modelled code can throw by itself: a property read on null.\<close>

datatype error = TypeError

text \<open>
  An asynchronous function in continuation-passing style. It has finished with a result,
  or its promise is rejected with an error that nothing caught, or it is suspended on an
  image load or on a fetch, holding the renderer as it is at that moment and the rest of
  the function, which is given the outcome (\<open>None\<close>: the promise was rejected) and the
  renderer as it is when the function resumes.
\<close>

datatype 'r task =
  Finished 'r renderer
  | Rejected error renderer
  | AwaitImage string renderer "image option \<Rightarrow> renderer \<Rightarrow> 'r task"
  | AwaitFetch string renderer "string option \<Rightarrow> renderer \<Rightarrow> 'r task"

definition skCanvas :: "canvasOp list \<Rightarrow> renderer \<Rightarrow> renderer" where
  "skCanvas ops st = st\<lparr>canvasLog := canvasLog st @ ops\<rparr>"

definition console_log :: "string \<Rightarrow> renderer \<Rightarrow> renderer" where
  "console_log msg st = st\<lparr>console := console st @ [msg]\<rparr>"

section \<open>Colours\<close>

definition convertColor :: "nat \<Rightarrow> real \<times> real \<times> real \<times> real" where
  "convertColor color =
     (real ((color div 65536) mod 256) / 255,
      real ((color div 256) mod 256) / 255,
      real (color mod 256) / 255,
      1)"

definition convertToRGB :: "nat \<Rightarrow> nat \<times> nat \<times> nat" where
  "convertToRGB color = ((color div 65536) mod 256, (color div 256) mod 256, color mod 256)"

section \<open>The raster painter\<close>

text \<open>The loop \<^verbatim>\<open>for (let i = 2; i < data.points.length; i += 2)\<close> of the line branch.\<close>

function lineTo_loop :: "matrix \<Rightarrow> real list \<Rightarrow> nat \<Rightarrow> pathCmd list" where
  "lineTo_loop t ps i =
     (if i < length ps
      then LineTo (m_tx t + ps ! i)
             (if i + 1 < length ps then Some (m_ty t + ps ! (i + 1)) else None)
           # lineTo_loop t ps (i + 2)
      else [])"
  by pat_completeness auto
termination
  by (relation "measure (\<lambda>(t, ps, i). length ps - i)") auto

declare lineTo_loop.simps [simp del]

text \<open>
  The line branch of the body of \<^verbatim>\<open>graphicsData.forEach\<close> in \<^verbatim>\<open>renderGraphics\<close>. The
  three setters called on \<^verbatim>\<open>this.paint\<close> overwrite every field the paint has here.
\<close>

definition renderLine :: "graphics \<Rightarrow> graphicsData \<Rightarrow> renderer \<Rightarrow> renderer" where
  "renderLine g d st =
     (if line_visible d then
        (let t = worldTransform g; ps = gd_points d in
         if length ps \<ge> 4 then
           (let path = MoveTo (m_tx t + ps ! 0) (m_ty t + ps ! 1) # lineTo_loop t ps 2;
                p = \<lparr>paint_style = Stroke, paint_color = convertColor (line_color d),
                     paint_strokeWidth = line_width d\<rparr>;
                st1 = st\<lparr>the_paint := p\<rparr>;
                st2 = (if angle g \<noteq> 0 then
                         (let b = bounds g;
                              centerX = rect_x b + rect_width b / 2;
                              centerY = rect_y b + rect_height b / 2
                          in skCanvas [Save, Rotate (angle g * pi / 180) centerX centerY] st1)
                       else st1)
            in skCanvas [DrawPath path (the_paint st2), Restore] st2)
         else st)
      else st)"

text \<open>The fill of a path: \<^verbatim>\<open>if (data.fillStyle.visible) { ... drawPath(path, this.paint) }\<close>.\<close>

definition fillPath :: "graphicsData \<Rightarrow> pathCmd list \<Rightarrow> renderer \<Rightarrow> renderer" where
  "fillPath d path st =
     (if fill_visible d then
        (let st1 = st\<lparr>the_paint := (the_paint st)
                       \<lparr>paint_style := Fill, paint_color := convertColor (fill_color d)\<rparr>\<rparr>
         in skCanvas [DrawPath path (the_paint st1)] st1)
      else st)"

text \<open>The shape branch of the same body.\<close>

definition renderShape :: "graphics \<Rightarrow> graphicsData \<Rightarrow> renderer \<Rightarrow> renderer" where
  "renderShape g d st =
     (case gd_shape d of
        Rectangle sx sy sw sh \<Rightarrow>
          (let t = worldTransform g;
               x = m_tx t + sx;
               y = m_ty t + sy;
               w = sw * m_a t;
               h = sh * m_d t
           in if angle g \<noteq> 0 then
                (let centerX = x + w / 2;
                     centerY = y + h / 2;
                     st1 = skCanvas [Save, Rotate (angle g * pi / 180) centerX centerY] st;
                     st2 = fillPath d [AddRect x y (x + w) (y + h)] st1
                 in skCanvas [Restore] st2)
              else fillPath d [AddRect x y (x + w) (y + h)] st)
      | Circle sx sy sr \<Rightarrow>
          (let t = worldTransform g;
               x = m_tx t + sx;
               y = m_ty t + sy;
               radius = sr * \<bar>m_a t\<bar>
           in if angle g \<noteq> 0 then
                (let st1 = skCanvas [Save, Rotate (angle g * pi / 180) x y] st;
                     st2 = fillPath d [AddCircle x y radius] st1
                 in skCanvas [Restore] st2)
              else fillPath d [AddCircle x y radius] st)
      | _ \<Rightarrow> st)"

definition renderGraphicsData :: "graphics \<Rightarrow> graphicsData \<Rightarrow> renderer \<Rightarrow> renderer" where
  "renderGraphicsData g d st = renderShape g d (renderLine g d st)"

definition renderGraphics :: "graphics \<Rightarrow> renderer \<Rightarrow> renderer" where
  "renderGraphics g st = fold (renderGraphicsData g) (graphicsData g) st"

text \<open>
  \<^verbatim>\<open>loadImage\<close>: a cached image is returned at once; otherwise a new \<^verbatim>\<open>Image\<close> is made
  and its \<^verbatim>\<open>src\<close> set, which starts a load, and the function is suspended until
  \<^verbatim>\<open>onload\<close> (which stores the decoded image in the cache and resolves) or \<^verbatim>\<open>onerror\<close>
  (which rejects).
\<close>

definition loadImage ::
  "string \<Rightarrow> (image option \<Rightarrow> renderer \<Rightarrow> 'r task) \<Rightarrow> renderer \<Rightarrow> 'r task" where
  "loadImage u k st =
     (case imageCache st u of
        Some img \<Rightarrow> k (Some img) st
      | None \<Rightarrow>
          AwaitImage u (st\<lparr>loadsStarted := loadsStarted st @ [u]\<rparr>)
            (\<lambda>res st'.
               case res of
                 Some img \<Rightarrow> k (Some img) (st'\<lparr>imageCache := (imageCache st')(u \<mapsto> img)\<rparr>)
               | None \<Rightarrow> k None st'))"

text \<open>The part of \<^verbatim>\<open>renderSprite\<close> after the image is at hand.\<close>

definition drawSprite :: "sprite \<Rightarrow> image \<Rightarrow> renderer \<Rightarrow> renderer" where
  "drawSprite s img st =
     (let p = \<lparr>sp_alpha = worldAlpha s,
               sp_colorFilter =
                 (if tint s \<noteq> 16777215 then
                    (let tintR = real ((tint s div 65536) mod 256) / 255;
                         tintG = real ((tint s div 256) mod 256) / 255;
                         tintB = real (tint s mod 256) / 255
                     in Some [tintR, 0, 0, 0, 0,
                              0, tintG, 0, 0, 0,
                              0, 0, tintB, 0, 0,
                              0, 0, 0, worldAlpha s, 0])
                  else None)\<rparr>;
          t = worldTransform s;
          srcRect = \<lparr>rect_x = 0, rect_y = 0, rect_width = base_width s,
                     rect_height = base_height s\<rparr>;
          dstRect = \<lparr>rect_x = m_tx t, rect_y = m_ty t, rect_width = base_width s * m_a t,
                     rect_height = base_height s * m_d t\<rparr>;
          rot = (if angle s \<noteq> 0 then
                   (let b = bounds s;
                        centerX = rect_x b + rect_width b / 2;
                        centerY = rect_y b + rect_height b / 2
                    in [Rotate (angle s * pi / 180) centerX centerY])
                 else [])
      in skCanvas ([Save] @ rot @ [DrawImageRect img srcRect dstRect p, Restore]) st)"

text \<open>
  \<^verbatim>\<open>renderSprite\<close>. The address is read before the \<^verbatim>\<open>try\<close>: on a sprite with no
  resource the read throws, and the promise of \<^verbatim>\<open>renderSprite\<close> is rejected.
\<close>

definition renderSprite :: "sprite \<Rightarrow> (renderer \<Rightarrow> 'r task) \<Rightarrow> renderer \<Rightarrow> 'r task" where
  "renderSprite s k st =
     (case resource s of
        None \<Rightarrow> Rejected TypeError st
      | Some u \<Rightarrow>
          if u = [] then k (console_log ''Sprite has no image URL'' st)
          else
            (case imageCache st u of
               Some img \<Rightarrow> k (drawSprite s img st)
             | None \<Rightarrow>
                 loadImage u
                   (\<lambda>res st'.
                      case res of
                        Some img \<Rightarrow>
                          k (drawSprite s img
                               (st'\<lparr>imageCache := (imageCache st')(u \<mapsto> img)\<rparr>))
                      | None \<Rightarrow> k (console_log ''Error rendering sprite:'' st'))
                   st))"

text \<open>
  \<^verbatim>\<open>renderContainer\<close>: the loop over the children, each sprite and each sub-container
  awaited before the next child is looked at. Nothing here catches: a rejected
  \<^verbatim>\<open>renderSprite\<close> rejects the walk, and the continuation is dropped.
\<close>

fun renderContainer :: "node list \<Rightarrow> (renderer \<Rightarrow> 'r task) \<Rightarrow> renderer \<Rightarrow> 'r task" where
  "renderContainer [] k st = k st"
| "renderContainer (Graphics g # cs) k st = renderContainer cs k (renderGraphics g st)"
| "renderContainer (Sprite s # cs) k st =
     renderSprite s (\<lambda>st'. renderContainer cs k st') st"
| "renderContainer (Container ks # cs) k st =
     renderContainer ks (\<lambda>st'. renderContainer cs k st') st"

text \<open>
  \<^verbatim>\<open>render\<close>: clear to white, walk, and flush when the walk has resolved. The
  \<^verbatim>\<open>then\<close> has no handler for a rejected walk.
\<close>

definition render :: "node list \<Rightarrow> renderer \<Rightarrow> unit task" where
  "render scene st =
     renderContainer scene (\<lambda>st'. Finished () (skCanvas [Flush] st'))
       (skCanvas [Save, DrawColorWhite, Restore] (st\<lparr>container := scene\<rparr>))"

section \<open>The document exporter\<close>

text \<open>The rotation of a point about a centre that \<^verbatim>\<open>exportToPDF\<close> writes out three times.\<close>

definition rotateX :: "real \<Rightarrow> real \<Rightarrow> real \<Rightarrow> real \<Rightarrow> real \<Rightarrow> real" where
  "rotateX deg centerX centerY x y =
     centerX + (x - centerX) * cos (deg * pi / 180) - (y - centerY) * sin (deg * pi / 180)"

definition rotateY :: "real \<Rightarrow> real \<Rightarrow> real \<Rightarrow> real \<Rightarrow> real \<Rightarrow> real" where
  "rotateY deg centerX centerY x y =
     centerY + (x - centerX) * sin (deg * pi / 180) + (y - centerY) * cos (deg * pi / 180)"

text \<open>The line branch of the body of \<^verbatim>\<open>graphicsData.forEach\<close> in \<^verbatim>\<open>exportToPDF\<close>.\<close>

definition pdfLine :: "graphics \<Rightarrow> graphicsData \<Rightarrow> pdfOp list" where
  "pdfLine g d =
     (let t = worldTransform g; ps = gd_points d in
      if line_visible d \<and> length ps \<ge> 4 then
        (let (r, gr, b) = convertToRGB (line_color d);
             startX = m_tx t + ps ! 0;
             startY = m_ty t + ps ! 1;
             endX = m_tx t + ps ! 2;
             endY = m_ty t + ps ! 3
         in [SetDrawColor r gr b, SetLineWidth (line_width d)] @
            (if angle g \<noteq> 0 then
               (let centerX = (startX + endX) / 2;
                    centerY = (startY + endY) / 2
                in [Line (rotateX (angle g) centerX centerY startX startY)
                         (rotateY (angle g) centerX centerY startX startY)
                         (rotateX (angle g) centerX centerY endX endY)
                         (rotateY (angle g) centerX centerY endX endY)])
             else [Line startX startY endX endY]))
      else [])"

text \<open>The position of a filled shape: rotated about the centre of the node's bounds.\<close>

definition pdfPosition :: "graphics \<Rightarrow> real \<Rightarrow> real \<Rightarrow> real \<times> real" where
  "pdfPosition g x y =
     (if angle g \<noteq> 0 then
        (let b = bounds g;
             centerX = rect_x b + rect_width b / 2;
             centerY = rect_y b + rect_height b / 2
         in (rotateX (angle g) centerX centerY x y, rotateY (angle g) centerX centerY x y))
      else (x, y))"

text \<open>The shape branch of the same body.\<close>

definition pdfShape :: "graphics \<Rightarrow> graphicsData \<Rightarrow> pdfOp list" where
  "pdfShape g d =
     (case gd_shape d of
        Rectangle sx sy sw sh \<Rightarrow>
          (let t = worldTransform g;
               x = m_tx t + sx;
               y = m_ty t + sy;
               w = sw * m_a t;
               h = sh * m_d t
           in if fill_visible d then
                (let (r, gr, b) = convertToRGB (fill_color d);
                     (x', y') = pdfPosition g x y
                 in [SetFillColor r gr b, PdfRect x' y' w h ''F''])
              else [])
      | Circle sx sy sr \<Rightarrow>
          (let t = worldTransform g;
               x = m_tx t + sx;
               y = m_ty t + sy;
               radius = sr * \<bar>m_a t\<bar>
           in if fill_visible d then
                (let (r, gr, b) = convertToRGB (fill_color d);
                     (x', y') = pdfPosition g x y
                 in [SetFillColor r gr b, PdfCircle x' y' radius ''F''])
              else [])
      | _ \<Rightarrow> [])"

definition pdfGraphicsData :: "graphics \<Rightarrow> graphicsData \<Rightarrow> pdfOp list" where
  "pdfGraphicsData g d = pdfLine g d @ pdfShape g d"

definition pdfGraphics :: "graphics \<Rightarrow> pdfOp list" where
  "pdfGraphics g = concat (map (pdfGraphicsData g) (graphicsData g))"

text \<open>
  \<^verbatim>\<open>addSpriteToPDF\<close>: the image is fetched and encoded (one suspension for the chain of
  \<^verbatim>\<open>fetch\<close>, \<^verbatim>\<open>blob\<close> and \<^verbatim>\<open>readAsDataURL\<close>); a failure is logged and the sprite left
  out. The address is read before the \<^verbatim>\<open>try\<close>, as in \<^verbatim>\<open>renderSprite\<close>.
\<close>

definition addSpriteToPDF ::
  "pdfOp list \<Rightarrow> sprite \<Rightarrow> (pdfOp list \<Rightarrow> renderer \<Rightarrow> 'r task) \<Rightarrow> renderer \<Rightarrow> 'r task" where
  "addSpriteToPDF doc s k st =
     (case resource s of
        None \<Rightarrow> Rejected TypeError st
      | Some u \<Rightarrow>
          if u = [] then k doc (console_log ''Sprite has no image URL'' st)
          else
            AwaitFetch u st
              (\<lambda>res st'.
                 case res of
                   None \<Rightarrow> k doc (console_log ''Error adding sprite to PDF:'' st')
                 | Some base64 \<Rightarrow>
                     (let t = worldTransform s;
                          x = m_tx t;
                          y = m_ty t;
                          w = base_width s * m_a t;
                          h = base_height s * m_d t;
                          (x', y') =
                            (if angle s \<noteq> 0 then
                               (let b = bounds s;
                                    centerX = rect_x b + rect_width b / 2;
                                    centerY = rect_y b + rect_height b / 2;
                                    c = cos (angle s * pi / 180);
                                    sn = sin (angle s * pi / 180);
                                    dx = x - centerX;
                                    dy = y - centerY
                                in (centerX + (dx * c - dy * sn), centerY + (dx * sn + dy * c)))
                             else (x, y))
                      in k (doc @ [AddImage base64 ''PNG'' x' y' w h (angle s)]) st')))"

text \<open>
  \<^verbatim>\<open>processContainer\<close>, the local function of \<^verbatim>\<open>exportToPDF\<close>. For a child that is a
  container the source calls \<^verbatim>\<open>this.renderContainer(child)\<close>, the raster painter's walk.
\<close>

fun processContainer ::
  "node list \<Rightarrow> pdfOp list \<Rightarrow> (pdfOp list \<Rightarrow> renderer \<Rightarrow> 'r task) \<Rightarrow> renderer \<Rightarrow> 'r task"
  where
  "processContainer [] doc k st = k doc st"
| "processContainer (Graphics g # cs) doc k st = processContainer cs (doc @ pdfGraphics g) k st"
| "processContainer (Sprite s # cs) doc k st =
     addSpriteToPDF doc s (\<lambda>doc' st'. processContainer cs doc' k st') st"
| "processContainer (Container ks # cs) doc k st =
     renderContainer ks (\<lambda>st'. processContainer cs doc k st') st"

text \<open>
  The \<^verbatim>\<open>catch\<close> of \<^verbatim>\<open>exportToPDF\<close>: when the function in the \<^verbatim>\<open>try\<close> is rejected, now
  or after a suspension, the handler runs on the renderer and the error is thrown on.
\<close>

primrec onReject :: "(renderer \<Rightarrow> renderer) \<Rightarrow> 'r task \<Rightarrow> 'r task" where
  "onReject f (Finished r st) = Finished r st"
| "onReject f (Rejected e st) = Rejected e (f st)"
| "onReject f (AwaitImage u st k) = AwaitImage u st (\<lambda>res st'. onReject f (k res st'))"
| "onReject f (AwaitFetch u st k) = AwaitFetch u st (\<lambda>res st'. onReject f (k res st'))"

definition exportToPDF :: "renderer \<Rightarrow> pdfDoc task" where
  "exportToPDF st =
     onReject (console_log ''Error exporting to PDF:'')
       (processContainer (container st) []
          (\<lambda>doc st'.
             Finished \<lparr>orientation = (if width st > height st then ''l'' else ''p''),
                        format = (width st, height st), pdfOps = doc\<rparr> st')
          (console_log ''Starting PDF export...'' st))"

section \<open>The hit tester\<close>

text \<open>
  Modelled from the spec: \<^verbatim>\<open>PIXI.Rectangle.contains\<close> is code of the scene-graph library
  and is not among the sources. The spec has the hit tester reject a point that is not
  within the bounding box of the node; the box is taken half-open and of positive size,
  as the library has it.
\<close>

definition contains :: "rect \<Rightarrow> real \<Rightarrow> real \<Rightarrow> bool" where
  "contains b x y =
     (if rect_width b \<le> 0 \<or> rect_height b \<le> 0 then False
      else rect_x b \<le> x \<and> x < rect_x b + rect_width b \<and>
           rect_y b \<le> y \<and> y < rect_y b + rect_height b)"

text \<open>The callback of \<^verbatim>\<open>graphicsData.some\<close> in \<^verbatim>\<open>hitTest\<close>.\<close>

definition hitData :: "graphics \<Rightarrow> point \<Rightarrow> graphicsData \<Rightarrow> bool" where
  "hitData g p d =
     (case gd_shape d of
        Rectangle sx sy sw sh \<Rightarrow>
          (let x = pt_x (position g) + sx;
               y = pt_y (position g) + sy
           in pt_x p \<ge> x \<and> pt_x p \<le> x + sw * pt_x (scale g) \<and>
              pt_y p \<ge> y \<and> pt_y p \<le> y + sh * pt_y (scale g))
      | Circle sx sy sr \<Rightarrow>
          (let centerX = pt_x (position g) + sx;
               centerY = pt_y (position g) + sy;
               dx = pt_x p - centerX;
               dy = pt_y p - centerY;
               distance = sqrt (dx * dx + dy * dy)
           in distance \<le> sr * pt_x (scale g))
      | _ \<Rightarrow> length (gd_points d) \<ge> 4)"

definition hitTest :: "point \<Rightarrow> graphics \<Rightarrow> bool" where
  "hitTest p g =
     (let b = bounds g in
      if contains b (pt_x p) (pt_y p) then
        (let p' =
           (if angle g \<noteq> 0 then
              (let centerX = rect_x b + rect_width b / 2;
                   centerY = rect_y b + rect_height b / 2;
                   radians = - angle g * pi / 180;
                   c = cos radians;
                   sn = sin radians;
                   dx = pt_x p - centerX;
                   dy = pt_y p - centerY
               in \<lparr>pt_x = centerX + (c * dx - sn * dy), pt_y = centerY + (sn * dx + c * dy)\<rparr>)
            else p)
         in list_ex (hitData g p') (graphicsData g))
      else False)"

text \<open>The synthetic event handed to \<^verbatim>\<open>child.emit\<close>.\<close>

record pixiEvent =
  ev_type :: string
  ev_target :: node
  ev_global :: point

text \<open>The test of the loop: \<^verbatim>\<open>child instanceof PIXI.Graphics && hitTest(point, child)\<close>.\<close>

definition isHit :: "point \<Rightarrow> node \<Rightarrow> bool" where
  "isHit p c = (case c of Graphics g \<Rightarrow> hitTest p g | _ \<Rightarrow> False)"

text \<open>
  The loop of a pointer listener over the reversed children: the events emitted, which
  is none or one, since the loop breaks after the first.
\<close>

fun dispatch :: "string \<Rightarrow> point \<Rightarrow> node list \<Rightarrow> pixiEvent list" where
  "dispatch ty p [] = []"
| "dispatch ty p (c # cs) =
     (if isHit p c then [\<lparr>ev_type = ty, ev_target = c, ev_global = p\<rparr>]
      else dispatch ty p cs)"

definition onPointerDown :: "point \<Rightarrow> renderer \<Rightarrow> pixiEvent list" where
  "onPointerDown p st = dispatch ''pointerdown'' p (rev (container st))"

definition onPointerUp :: "point \<Rightarrow> renderer \<Rightarrow> pixiEvent list" where
  "onPointerUp p st = dispatch ''pointerup'' p (rev (container st))"

section \<open>Running a suspended function to its end\<close>

text \<open>
  One walk on its own: every promise it waits for is settled with the outcome the
  environment gives for that address, and nothing else touches the renderer meanwhile.
  A task is a well-founded tree, so every walk ends: with its result, or with \<open>None\<close>
  when it is rejected.
\<close>

primrec drive ::
  "(string \<Rightarrow> image option) \<Rightarrow> (string \<Rightarrow> string option) \<Rightarrow> 'r task \<Rightarrow>
   'r option \<times> renderer" where
  "drive env fenv (Finished r st) = (Some r, st)"
| "drive env fenv (Rejected e st) = (None, st)"
| "drive env fenv (AwaitImage u st k) = drive env fenv (k (env u) st)"
| "drive env fenv (AwaitFetch u st k) = drive env fenv (k (fenv u) st)"

text \<open>What a task is waiting for, and the renderer it holds.\<close>

definition awaits :: "'r task \<Rightarrow> string option" where
  "awaits t = (case t of Finished r st \<Rightarrow> None | Rejected e st \<Rightarrow> None
               | AwaitImage u st k \<Rightarrow> Some u | AwaitFetch u st k \<Rightarrow> Some u)"

definition task_state :: "'r task \<Rightarrow> renderer" where
  "task_state t = (case t of Finished r st \<Rightarrow> st | Rejected e st \<Rightarrow> st
                   | AwaitImage u st k \<Rightarrow> st | AwaitFetch u st k \<Rightarrow> st)"

text \<open>The image load a task waits for is settled, the renderer being \<open>st'\<close> by then.\<close>

definition settle :: "image option \<Rightarrow> renderer \<Rightarrow> 'r task \<Rightarrow> 'r task" where
  "settle res st' t = (case t of AwaitImage u st k \<Rightarrow> k res st' | _ \<Rightarrow> t)"

text \<open>The canvas calls that one call of \<^verbatim>\<open>renderGraphics\<close> makes.\<close>

definition drawn :: "graphics \<Rightarrow> renderer \<Rightarrow> canvasOp list" where
  "drawn g st = drop (length (canvasLog st)) (canvasLog (renderGraphics g st))"

text \<open>The canvas log of \<open>st'\<close> is that of \<open>st\<close> and further calls, none of them a flush.\<close>

definition quiet :: "renderer \<Rightarrow> renderer \<Rightarrow> bool" where
  "quiet st st' =
     (take (length (canvasLog st)) (canvasLog st') = canvasLog st \<and>
      Flush \<notin> set (drop (length (canvasLog st)) (canvasLog st')))"

section \<open>The walk, one child after the other\<close>

text \<open>
  The walk as a plain loop, to be compared with \<^verbatim>\<open>renderContainer\<close>: the children are
  handled one after the other in the order of the list, the children of a sub-container
  in its place, and the load a sprite starts is settled, with the outcome \<open>env\<close> gives,
  before the next child is looked at. The loop is stopped by a sprite with no resource.
\<close>

datatype walked = Completed renderer | Stopped renderer

definition walked_state :: "walked \<Rightarrow> renderer" where
  "walked_state w = (case w of Completed st \<Rightarrow> st | Stopped st \<Rightarrow> st)"

definition seqSprite :: "(string \<Rightarrow> image option) \<Rightarrow> sprite \<Rightarrow> renderer \<Rightarrow> walked" where
  "seqSprite env s st =
     (case resource s of
        None \<Rightarrow> Stopped st
      | Some u \<Rightarrow>
          if u = [] then Completed (console_log ''Sprite has no image URL'' st)
          else
            (case imageCache st u of
               Some img \<Rightarrow> Completed (drawSprite s img st)
             | None \<Rightarrow>
                 (let st1 = st\<lparr>loadsStarted := loadsStarted st @ [u]\<rparr> in
                  case env u of
                    Some img \<Rightarrow>
                      Completed
                        (drawSprite s img (st1\<lparr>imageCache := (imageCache st1)(u \<mapsto> img)\<rparr>))
                  | None \<Rightarrow> Completed (console_log ''Error rendering sprite:'' st1))))"

fun seqWalk :: "(string \<Rightarrow> image option) \<Rightarrow> node list \<Rightarrow> renderer \<Rightarrow> walked" where
  "seqWalk env [] st = Completed st"
| "seqWalk env (Graphics g # cs) st = seqWalk env cs (renderGraphics g st)"
| "seqWalk env (Sprite s # cs) st =
     (case seqSprite env s st of
        Completed st' \<Rightarrow> seqWalk env cs st'
      | Stopped st' \<Rightarrow> Stopped st')"
| "seqWalk env (Container ks # cs) st =
     (case seqWalk env ks st of
        Completed st' \<Rightarrow> seqWalk env cs st'
      | Stopped st' \<Rightarrow> Stopped st')"

section \<open>The geometry as the specification words it\<close>




section \<open>Example scenes\<close>

definition ex_renderer :: renderer where
  "ex_renderer =
     \<lparr>container = [], width = 400, height = 300,
      the_paint = \<lparr>paint_style = Fill, paint_color = (0, 0, 0, 1), paint_strokeWidth = 0\<rparr>,
      imageCache = Map.empty, canvasLog = [], loadsStarted = [], console = []\<rparr>"

definition ex_matrix :: matrix where
  "ex_matrix = \<lparr>m_a = 2, m_b = 0, m_c = 0, m_d = 3, m_tx = 100, m_ty = 200\<rparr>"

text \<open>A blue rectangle at local (10, 20), 30 by 40, scaled by (2, 3), moved to (100, 200).\<close>

definition ex_rect :: graphics where
  "ex_rect =
     \<lparr>worldTransform = ex_matrix, angle = 0,
      bounds = \<lparr>rect_x = 120, rect_y = 260, rect_width = 60, rect_height = 120\<rparr>,
      graphicsData =
        [\<lparr>gd_shape = Rectangle 10 20 30 40, line_visible = False, line_color = 0,
          line_width = 0, fill_visible = True, fill_color = 255, gd_points = []\<rparr>],
      position = \<lparr>pt_x = 100, pt_y = 200\<rparr>, scale = \<lparr>pt_x = 2, pt_y = 3\<rparr>\<rparr>"

text \<open>The same rectangle in red: a second node at the same place.\<close>

definition ex_rect2 :: graphics where
  "ex_rect2 =
     ex_rect\<lparr>graphicsData :=
        [\<lparr>gd_shape = Rectangle 10 20 30 40, line_visible = False, line_color = 0,
          line_width = 0, fill_visible = True, fill_color = 16711680, gd_points = []\<rparr>]\<rparr>"


text \<open>A line from local (0, 0) to (30, 40), 2 wide, on a node that is not rotated.\<close>

definition ex_line_data :: graphicsData where
  "ex_line_data =
     \<lparr>gd_shape = Polygon, line_visible = True, line_color = 65280, line_width = 2,
      fill_visible = False, fill_color = 0, gd_points = [0, 0, 30, 40]\<rparr>"

definition ex_line :: graphics where
  "ex_line =
     \<lparr>worldTransform = ex_matrix, angle = 0,
      bounds = \<lparr>rect_x = 98, rect_y = 197, rect_width = 64, rect_height = 126\<rparr>,
      graphicsData = [ex_line_data],
      position = \<lparr>pt_x = 100, pt_y = 200\<rparr>, scale = \<lparr>pt_x = 2, pt_y = 3\<rparr>\<rparr>"


definition ex_sprite :: sprite where
  "ex_sprite =
     \<lparr>worldTransform = ex_matrix, angle = 0,
      bounds = \<lparr>rect_x = 100, rect_y = 200, rect_width = 52, rect_height = 111\<rparr>,
      resource = Some ''bunny.png'', worldAlpha = 1, tint = 16777215, base_width = 26,
      base_height = 37\<rparr>"

definition ex_point :: point where
  "ex_point = \<lparr>pt_x = 130, pt_y = 270\<rparr>"

definition ex_far :: point where
  "ex_far = \<lparr>pt_x = 0, pt_y = 0\<rparr>"

text \<open>Two rectangles on top of each other, and a sprite laid over a rectangle.\<close>

definition ex_stack :: renderer where
  "ex_stack = ex_renderer\<lparr>container := [Graphics ex_rect, Graphics ex_rect2]\<rparr>"

definition ex_covered :: renderer where
  "ex_covered = ex_renderer\<lparr>container := [Graphics ex_rect, Sprite ex_sprite]\<rparr>"

text \<open>A rectangle inside a sub-container, as the lines of \<^verbatim>\<open>createContainer2\<close> are.\<close>

definition ex_nested :: renderer where
  "ex_nested = ex_renderer\<lparr>container := [Container [Graphics ex_rect]]\<rparr>"

definition ex_flat :: renderer where
  "ex_flat = ex_renderer\<lparr>container := [Graphics ex_rect]\<rparr>"

text \<open>A second sprite with an image of its own.\<close>

definition ex_sprite2 :: sprite where
  "ex_sprite2 = ex_sprite\<lparr>resource := Some ''carrot.png''\<rparr>"

text \<open>The renderer once the image of \<open>ex_sprite\<close> is in the cache.\<close>

definition ex_loaded :: renderer where
  "ex_loaded = ex_renderer\<lparr>imageCache := [''bunny.png'' \<mapsto> SkImage 1]\<rparr>"


text \<open>A sprite whose base texture has no resource.\<close>

definition ex_blank :: sprite where
  "ex_blank = ex_sprite\<lparr>resource := None\<rparr>"


section \<open>Pointer dispatch\<close>

lemmas hit_defs = isHit_def hitTest_def contains_def hitData_def

lemma dispatch_no_hit: "\<forall>c\<in>set cs. \<not> isHit p c \<Longrightarrow> dispatch ty p cs = []"
  by (induction cs) auto

lemma dispatch_first_hit:
  "i < length cs \<Longrightarrow> isHit p (cs ! i) \<Longrightarrow> \<forall>j<i. \<not> isHit p (cs ! j) \<Longrightarrow>
   dispatch ty p cs = [\<lparr>ev_type = ty, ev_target = cs ! i, ev_global = p\<rparr>]"
proof (induction cs arbitrary: i)
  case Nil
  then show ?case by simp
next
  case (Cons c cs)
  show ?case
  proof (cases i)
    case 0
    with Cons.prems show ?thesis by simp
  next
    case (Suc n)
    from Cons.prems Suc have c: "\<not> isHit p c" by auto
    from Cons.prems Suc have n: "n < length cs" "isHit p (cs ! n)" by auto
    from Cons.prems Suc have "\<forall>j<n. \<not> isHit p (cs ! j)" by auto
    with Cons.IH n have "dispatch ty p cs = [\<lparr>ev_type = ty, ev_target = cs ! n, ev_global = p\<rparr>]"
      by blast
    with c Suc show ?thesis by simp
  qed
qed

lemma dispatch_rev_last_hit:
  assumes i: "i < length cs" and hit: "isHit p (cs ! i)"
    and later: "\<forall>j<length cs. i < j \<longrightarrow> \<not> isHit p (cs ! j)"
  shows "dispatch ty p (rev cs) = [\<lparr>ev_type = ty, ev_target = cs ! i, ev_global = p\<rparr>]"
proof -
  let ?n = "length cs"
  let ?k = "?n - Suc i"
  have k: "?k < length (rev cs)" using i by simp
  have at: "rev cs ! ?k = cs ! i" using i by (simp add: rev_nth)
  have before: "\<forall>j<?k. \<not> isHit p (rev cs ! j)"
  proof (intro allI impI)
    fix j assume j: "j < ?k"
    then have "j < ?n" by simp
    then have "rev cs ! j = cs ! (?n - Suc j)" by (simp add: rev_nth)
    moreover have "i < ?n - Suc j" "?n - Suc j < ?n" using j i by auto
    ultimately show "\<not> isHit p (rev cs ! j)" using later by simp
  qed
  from dispatch_first_hit [OF k _ before, of ty] hit at show ?thesis by simp
qed

lemma dispatch_target_hit: "ev \<in> set (dispatch ty p cs) \<Longrightarrow> isHit p (ev_target ev)"
  by (induction cs) (auto split: if_splits)

text \<open>
  C7. A pointer-down or pointer-up listener goes through the children of the root from
  the last to the first. When no child passes the test, nothing is emitted. Otherwise
  exactly one event is emitted, with the type of the listener and the point of the
  input, to the child that passes the test and has no passing child after it in the
  list of children.
\<close>

theorem pointer_dispatch_topmost_first:
  "((\<forall>c\<in>set (container st). \<not> isHit p c) \<longrightarrow>
      onPointerDown p st = [] \<and> onPointerUp p st = []) \<and>
   (\<forall>i<length (container st).
      isHit p (container st ! i) \<and>
      (\<forall>j<length (container st). i < j \<longrightarrow> \<not> isHit p (container st ! j)) \<longrightarrow>
      onPointerDown p st =
        [\<lparr>ev_type = ''pointerdown'', ev_target = container st ! i, ev_global = p\<rparr>] \<and>
      onPointerUp p st =
        [\<lparr>ev_type = ''pointerup'', ev_target = container st ! i, ev_global = p\<rparr>])"
  unfolding onPointerDown_def onPointerUp_def
  by (auto simp: dispatch_no_hit dispatch_rev_last_hit)

text \<open>
  Both rectangles of \<open>ex_stack\<close> lie under \<open>ex_point\<close>: the event goes to the second,
  which is drawn last. Nothing lies under \<open>ex_far\<close>.
\<close>

theorem pointer_dispatch_topmost_first_witness:
  "isHit ex_point (Graphics ex_rect) \<and>
   onPointerDown ex_point ex_stack =
     [\<lparr>ev_type = ''pointerdown'', ev_target = Graphics ex_rect2, ev_global = ex_point\<rparr>] \<and>
   onPointerUp ex_point ex_stack =
     [\<lparr>ev_type = ''pointerup'', ev_target = Graphics ex_rect2, ev_global = ex_point\<rparr>] \<and>
   onPointerDown ex_far ex_stack = [] \<and> onPointerUp ex_far ex_stack = []"
proof -
  have c: "container ex_stack = [Graphics ex_rect, Graphics ex_rect2]"
    by (simp add: ex_stack_def ex_renderer_def)
  have first: "isHit ex_point (Graphics ex_rect)"
    by (simp add: hit_defs ex_point_def ex_rect_def)
  have i: "1 < length (container ex_stack)"
    by (simp add: c)
  have hit: "isHit ex_point (container ex_stack ! 1)"
    by (simp add: c hit_defs ex_point_def ex_rect2_def ex_rect_def)
  have later: "\<forall>j<length (container ex_stack). 1 < j \<longrightarrow>
                 \<not> isHit ex_point (container ex_stack ! j)"
    by (auto simp: c)
  have none: "\<forall>c\<in>set (container ex_stack). \<not> isHit ex_far c"
    by (simp add: c hit_defs ex_far_def ex_rect2_def ex_rect_def)
  from pointer_dispatch_topmost_first [of ex_stack ex_point] i hit later
  have "onPointerDown ex_point ex_stack =
          [\<lparr>ev_type = ''pointerdown'', ev_target = container ex_stack ! 1,
            ev_global = ex_point\<rparr>] \<and>
        onPointerUp ex_point ex_stack =
          [\<lparr>ev_type = ''pointerup'', ev_target = container ex_stack ! 1,
            ev_global = ex_point\<rparr>]"
    by blast
  moreover from pointer_dispatch_topmost_first [of ex_stack ex_far] none
  have "onPointerDown ex_far ex_stack = [] \<and> onPointerUp ex_far ex_stack = []"
    by blast
  ultimately show ?thesis using first by (simp add: c)
qed

text \<open>
  C10. No pointer event is ever emitted to a sprite: the test of the loop holds for
  graphics nodes only, whatever the bounds of the sprite and whatever handlers it has.
\<close>

theorem sprite_never_hit:
  "Sprite s \<notin> ev_target ` (set (onPointerDown p st) \<union> set (onPointerUp p st))"
proof
  assume "Sprite s \<in> ev_target ` (set (onPointerDown p st) \<union> set (onPointerUp p st))"
  then obtain ev where "ev_target ev = Sprite s"
    and "ev \<in> set (onPointerDown p st) \<union> set (onPointerUp p st)" by auto
  then have "isHit p (Sprite s)"
    unfolding onPointerDown_def onPointerUp_def using dispatch_target_hit by fastforce
  then show False by (simp add: isHit_def)
qed

text \<open>
  In \<open>ex_covered\<close> the sprite is the last child and \<open>ex_point\<close> lies within its bounds:
  the event goes to the rectangle under it.
\<close>

theorem sprite_never_hit_witness:
  "contains (bounds ex_sprite) (pt_x ex_point) (pt_y ex_point) \<and>
   Sprite ex_sprite \<notin>
     ev_target ` (set (onPointerDown ex_point ex_covered) \<union> set (onPointerUp ex_point ex_covered)) \<and>
   onPointerDown ex_point ex_covered =
     [\<lparr>ev_type = ''pointerdown'', ev_target = Graphics ex_rect, ev_global = ex_point\<rparr>]"
proof -
  have "contains (bounds ex_sprite) (pt_x ex_point) (pt_y ex_point)"
    by (simp add: contains_def ex_sprite_def ex_point_def)
  moreover have "onPointerDown ex_point ex_covered =
     [\<lparr>ev_type = ''pointerdown'', ev_target = Graphics ex_rect, ev_global = ex_point\<rparr>]"
    by (simp add: onPointerDown_def hit_defs ex_covered_def ex_renderer_def ex_rect_def
        ex_point_def)
  ultimately show ?thesis
    using sprite_never_hit [of ex_sprite ex_point ex_covered] by blast
qed

section \<open>The canvas calls of the raster painter\<close>

lemma renderLine_log:
  "\<exists>ops. canvasLog (renderLine g d st) = canvasLog st @ ops \<and> Flush \<notin> set ops"
  by (simp add: renderLine_def skCanvas_def Let_def)

lemma fillPath_log:
  "\<exists>ops. canvasLog (fillPath d path st) = canvasLog st @ ops \<and> Flush \<notin> set ops"
  by (simp add: fillPath_def skCanvas_def Let_def)

lemma renderShape_log:
  "\<exists>ops. canvasLog (renderShape g d st) = canvasLog st @ ops \<and> Flush \<notin> set ops"
  by (cases "gd_shape d") (simp_all add: renderShape_def fillPath_def skCanvas_def Let_def)

lemma renderGraphicsData_log:
  "\<exists>ops. canvasLog (renderGraphicsData g d st) = canvasLog st @ ops \<and> Flush \<notin> set ops"
proof -
  obtain ops1 where 1: "canvasLog (renderLine g d st) = canvasLog st @ ops1" "Flush \<notin> set ops1"
    using renderLine_log by blast
  obtain ops2 where 2: "canvasLog (renderShape g d (renderLine g d st)) =
      canvasLog (renderLine g d st) @ ops2" "Flush \<notin> set ops2"
    using renderShape_log by blast
  from 1 2 have "canvasLog (renderGraphicsData g d st) = canvasLog st @ (ops1 @ ops2) \<and>
      Flush \<notin> set (ops1 @ ops2)"
    by (simp add: renderGraphicsData_def)
  then show ?thesis by blast
qed

lemma fold_renderGraphicsData_log:
  "\<exists>ops. canvasLog (fold (renderGraphicsData g) ds st) = canvasLog st @ ops \<and> Flush \<notin> set ops"
proof (induction ds arbitrary: st)
  case Nil
  then show ?case by simp
next
  case (Cons d ds)
  obtain ops1 where 1: "canvasLog (renderGraphicsData g d st) = canvasLog st @ ops1"
      "Flush \<notin> set ops1"
    using renderGraphicsData_log by blast
  obtain ops2 where 2: "canvasLog (fold (renderGraphicsData g) ds (renderGraphicsData g d st)) =
      canvasLog (renderGraphicsData g d st) @ ops2" "Flush \<notin> set ops2"
    using Cons.IH by blast
  from 1 2 have "canvasLog (fold (renderGraphicsData g) (d # ds) st) = canvasLog st @ (ops1 @ ops2) \<and>
      Flush \<notin> set (ops1 @ ops2)"
    by simp
  then show ?case by blast
qed

lemma renderGraphics_log: "canvasLog (renderGraphics g st) = canvasLog st @ drawn g st"
proof -
  obtain ops where "canvasLog (renderGraphics g st) = canvasLog st @ ops"
    unfolding renderGraphics_def using fold_renderGraphicsData_log by blast
  then show ?thesis by (simp add: drawn_def)
qed

lemma drawn_no_flush: "Flush \<notin> set (drawn g st)"
proof -
  obtain ops where "canvasLog (renderGraphics g st) = canvasLog st @ ops" "Flush \<notin> set ops"
    unfolding renderGraphics_def using fold_renderGraphicsData_log by blast
  then show ?thesis by (simp add: drawn_def)
qed






lemma lineTo_loop_two_points:
  "lineTo_loop t [x0, y0, x1, y1] 2 = [LineTo (m_tx t + x1) (Some (m_ty t + y1))]"
proof -
  have "lineTo_loop t [x0, y0, x1, y1] 4 = []"
    by (subst lineTo_loop.simps) simp
  moreover have "lineTo_loop t [x0, y0, x1, y1] 2 =
    LineTo (m_tx t + x1) (Some (m_ty t + y1)) # lineTo_loop t [x0, y0, x1, y1] 4"
    by (subst lineTo_loop.simps) simp
  ultimately show ?thesis by simp
qed


section \<open>Geometry of the shapes\<close>

lemmas paint_defs = renderGraphics_def renderGraphicsData_def renderLine_def renderShape_def
  fillPath_def skCanvas_def convertColor_def drawn_def Let_def

lemmas pdf_defs = pdfGraphics_def pdfGraphicsData_def pdfLine_def pdfShape_def pdfPosition_def
  convertToRGB_def Let_def











text \<open>
  C9 fails on the line branch. For the unrotated line of \<open>ex_line\<close> the painter calls
  \<^verbatim>\<open>drawPath\<close> and then \<^verbatim>\<open>restore\<close>, having called \<^verbatim>\<open>save\<close> not once: the
  \<^verbatim>\<open>restore\<close> stands outside the test of the angle that guards the \<^verbatim>\<open>save\<close>.
\<close>

theorem line_unrotated_restore_without_save:
  "angle ex_line = 0 \<and>
   drawn ex_line ex_renderer =
     [DrawPath [MoveTo 100 200, LineTo 130 (Some 240)]
        \<lparr>paint_style = Stroke, paint_color = (0, 1, 0, 1), paint_strokeWidth = 2\<rparr>,
      Restore] \<and>
   count_list (drawn ex_line ex_renderer) Save = 0 \<and>
   count_list (drawn ex_line ex_renderer) Restore = 1"
proof -
  have "drawn ex_line ex_renderer =
     [DrawPath [MoveTo 100 200, LineTo 130 (Some 240)]
        \<lparr>paint_style = Stroke, paint_color = (0, 1, 0, 1), paint_strokeWidth = 2\<rparr>,
      Restore]"
    by (simp add: paint_defs lineTo_loop_two_points ex_line_def ex_line_data_def ex_matrix_def
        ex_renderer_def)
  then show ?thesis by (simp add: ex_line_def)
qed

section \<open>The walks and their suspensions\<close>

lemma quiet_iff:
  "quiet st st' \<longleftrightarrow> (\<exists>ops. canvasLog st' = canvasLog st @ ops \<and> Flush \<notin> set ops)"
proof
  assume q: "quiet st st'"
  let ?n = "length (canvasLog st)"
  have "canvasLog st' = take ?n (canvasLog st') @ drop ?n (canvasLog st')"
    by simp
  with q have "canvasLog st' = canvasLog st @ drop ?n (canvasLog st') \<and>
      Flush \<notin> set (drop ?n (canvasLog st'))"
    by (simp add: quiet_def)
  then show "\<exists>ops. canvasLog st' = canvasLog st @ ops \<and> Flush \<notin> set ops"
    by blast
next
  assume "\<exists>ops. canvasLog st' = canvasLog st @ ops \<and> Flush \<notin> set ops"
  then show "quiet st st'"
    by (auto simp: quiet_def)
qed

lemma quiet_refl: "quiet st st"
  by (simp add: quiet_iff)

lemma quiet_trans: "quiet st st1 \<Longrightarrow> quiet st1 st2 \<Longrightarrow> quiet st st2"
proof -
  assume "quiet st st1" and "quiet st1 st2"
  then obtain ops1 ops2 where "canvasLog st1 = canvasLog st @ ops1" "Flush \<notin> set ops1"
    "canvasLog st2 = canvasLog st1 @ ops2" "Flush \<notin> set ops2"
    unfolding quiet_iff by blast
  then have "canvasLog st2 = canvasLog st @ (ops1 @ ops2) \<and> Flush \<notin> set (ops1 @ ops2)"
    by simp
  then show "quiet st st2" unfolding quiet_iff by blast
qed

lemma quiet_renderGraphics: "quiet st (renderGraphics g st)"
  unfolding quiet_iff using renderGraphics_log drawn_no_flush by blast

lemma quiet_drawSprite: "canvasLog st1 = canvasLog st \<Longrightarrow> quiet st (drawSprite s img st1)"
  by (simp add: quiet_iff drawSprite_def skCanvas_def Let_def)

lemma quiet_same_log: "canvasLog st1 = canvasLog st \<Longrightarrow> quiet st st1"
  by (simp add: quiet_iff)

text \<open>No step of the plain loop makes a flush.\<close>

lemma quiet_seqSprite: "quiet st (walked_state (seqSprite env s st))"
proof (cases "resource s")
  case None
  then show ?thesis by (simp add: seqSprite_def walked_state_def quiet_refl)
next
  case (Some u)
  show ?thesis
  proof (cases "u = []")
    case True
    with Some show ?thesis
      by (simp add: seqSprite_def walked_state_def quiet_same_log console_log_def)
  next
    case False
    show ?thesis
    proof (cases "imageCache st u")
      case cached: (Some img)
      with Some False show ?thesis
        by (simp add: seqSprite_def walked_state_def quiet_drawSprite)
    next
      case None
      show ?thesis
      proof (cases "env u")
        case loaded: (Some img)
        with Some False None show ?thesis
          by (simp add: seqSprite_def walked_state_def quiet_drawSprite Let_def)
      next
        case failed: None
        with Some False None show ?thesis
          by (simp add: seqSprite_def walked_state_def quiet_same_log console_log_def Let_def)
      qed
    qed
  qed
qed

lemma quiet_seqWalk: "quiet st (walked_state (seqWalk env cs st))"
proof (induction env cs st rule: seqWalk.induct)
  case (1 env st)
  show ?case by (simp add: walked_state_def quiet_refl)
next
  case (2 env g cs st)
  then show ?case using quiet_trans [OF quiet_renderGraphics] by simp
next
  case (3 env s cs st)
  show ?case
  proof (cases "seqSprite env s st")
    case (Completed st1)
    with quiet_seqSprite [of st env s] have "quiet st st1" by (simp add: walked_state_def)
    moreover from 3 [OF Completed] have "quiet st1 (walked_state (seqWalk env cs st1))" .
    ultimately show ?thesis using Completed quiet_trans by simp
  next
    case (Stopped st1)
    with quiet_seqSprite [of st env s] show ?thesis by (simp add: walked_state_def)
  qed
next
  case (4 env ks cs st)
  show ?case
  proof (cases "seqWalk env ks st")
    case (Completed st1)
    with 4(1) have "quiet st st1" by (simp add: walked_state_def)
    moreover from 4(2) [OF Completed] have "quiet st1 (walked_state (seqWalk env cs st1))" .
    ultimately show ?thesis using Completed quiet_trans by simp
  next
    case (Stopped st1)
    with 4(1) show ?thesis by (simp add: walked_state_def)
  qed
qed

text \<open>
  The asynchronous walk, driven to its end, is the plain loop: it hands on to its
  continuation the renderer the loop ends with, or is rejected where the loop stops.
\<close>

lemma renderSprite_seq:
  "drive env fenv (renderSprite s k st) =
     (case seqSprite env s st of
        Completed st' \<Rightarrow> drive env fenv (k st')
      | Stopped st' \<Rightarrow> (None, st'))"
  by (simp add: renderSprite_def seqSprite_def loadImage_def Let_def split: option.splits)

lemma renderContainer_seq:
  "drive env fenv (renderContainer cs k st) =
     (case seqWalk env cs st of
        Completed st' \<Rightarrow> drive env fenv (k st')
      | Stopped st' \<Rightarrow> (None, st'))"
proof (induction cs k st rule: renderContainer.induct)
  case (1 k st)
  show ?case by simp
next
  case (2 g cs k st)
  then show ?case by simp
next
  case (3 s cs k st)
  show ?case
  proof (cases "seqSprite env s st")
    case (Completed st1)
    with 3 [of st1] show ?thesis by (simp add: renderSprite_seq)
  next
    case (Stopped st1)
    then show ?thesis by (simp add: renderSprite_seq)
  qed
next
  case (4 ks cs k st)
  show ?case
  proof (cases "seqWalk env ks st")
    case (Completed st1)
    with 4(1) [of st1] 4(2) show ?thesis by simp
  next
    case (Stopped st1)
    with 4(2) show ?thesis by simp
  qed
qed

text \<open>The children of the front of a list are all handled before the first of the rest.\<close>

lemma renderContainer_append:
  "renderContainer (cs1 @ cs2) k st =
   renderContainer cs1 (\<lambda>st'. renderContainer cs2 k st') st"
proof (induction cs1 arbitrary: k st)
  case Nil
  show ?case by simp
next
  case (Cons c cs1)
  have "renderContainer (cs1 @ cs2) k = renderContainer cs1 (\<lambda>st'. renderContainer cs2 k st')"
    by (rule ext) (rule Cons.IH)
  then show ?case by (cases c) simp_all
qed

lemma renderLine_frame:
  "imageCache (renderLine g d st) = imageCache st \<and>
   loadsStarted (renderLine g d st) = loadsStarted st"
  by (simp add: renderLine_def skCanvas_def Let_def)

lemma renderShape_frame:
  "imageCache (renderShape g d st) = imageCache st \<and>
   loadsStarted (renderShape g d st) = loadsStarted st"
  by (cases "gd_shape d") (simp_all add: renderShape_def fillPath_def skCanvas_def Let_def)

lemma fold_renderGraphicsData_frame:
  "imageCache (fold (renderGraphicsData g) ds st) = imageCache st \<and>
   loadsStarted (fold (renderGraphicsData g) ds st) = loadsStarted st"
  by (induction ds arbitrary: st)
    (simp_all add: renderGraphicsData_def renderLine_frame renderShape_frame)

lemma renderGraphics_frame:
  "imageCache (renderGraphics g st) = imageCache st \<and>
   loadsStarted (renderGraphics g st) = loadsStarted st"
  by (simp add: renderGraphics_def fold_renderGraphicsData_frame)

text \<open>
  C1 fails on sub-containers. The scene of \<open>ex_nested\<close> is one sub-container holding the
  rectangle of \<open>ex_rect\<close>. The export ends with a document that has no primitive in it,
  and the rectangle has been drawn on the canvas of the raster painter instead. The same
  rectangle as a direct child of the root is emitted into the document and the canvas is
  left alone.
\<close>

theorem export_walks_sub_container_on_canvas:
  "drive Map.empty Map.empty (exportToPDF ex_nested) =
     (Some \<lparr>orientation = ''l'', format = (400, 300), pdfOps = []\<rparr>,
      ex_nested
        \<lparr>the_paint := \<lparr>paint_style = Fill, paint_color = (0, 0, 1, 1), paint_strokeWidth = 0\<rparr>,
         canvasLog :=
           [DrawPath [AddRect 110 220 170 340]
              \<lparr>paint_style = Fill, paint_color = (0, 0, 1, 1), paint_strokeWidth = 0\<rparr>],
         console := [''Starting PDF export...'']\<rparr>) \<and>
   drive Map.empty Map.empty (exportToPDF ex_flat) =
     (Some \<lparr>orientation = ''l'', format = (400, 300),
        pdfOps = [SetFillColor 0 0 255, PdfRect 110 220 60 120 ''F'']\<rparr>,
      ex_flat\<lparr>console := [''Starting PDF export...'']\<rparr>)"
  by (simp add: exportToPDF_def console_log_def paint_defs pdf_defs ex_nested_def ex_flat_def
      ex_rect_def ex_matrix_def ex_renderer_def)

text \<open>
  C3, as amended. A request for an address whose image is in the cache starts no load
  and goes on with the cached image. A request for an address that is not in the cache
  starts a load of its own and waits for it, whether or not an earlier load of the same
  address is still in flight; when a load succeeds its image is put into the cache, and
  when it fails nothing is.
\<close>

theorem load_started_unless_cached:
  "(imageCache st u = Some img \<longrightarrow>
      loadImage u k st = k (Some img) st \<and>
      (resource s = Some u \<and> u \<noteq> [] \<longrightarrow> renderSprite s k' st = k' (drawSprite s img st))) \<and>
   (imageCache st u = None \<longrightarrow>
      awaits (loadImage u k st) = Some u \<and>
      task_state (loadImage u k st) = st\<lparr>loadsStarted := loadsStarted st @ [u]\<rparr> \<and>
      settle (Some img') st' (loadImage u k st) =
        k (Some img') (st'\<lparr>imageCache := (imageCache st')(u \<mapsto> img')\<rparr>) \<and>
      settle None st' (loadImage u k st) = k None st' \<and>
      (resource s = Some u \<and> u \<noteq> [] \<longrightarrow>
         awaits (renderSprite s k' st) = Some u \<and>
         task_state (renderSprite s k' st) = st\<lparr>loadsStarted := loadsStarted st @ [u]\<rparr>))"
  by (auto simp: loadImage_def renderSprite_def awaits_def task_state_def settle_def)

text \<open>
  With the image of \<open>ex_sprite\<close> in the cache no load is started; with an empty cache one
  is, and the image it brings is in the cache afterwards.
\<close>

theorem load_started_unless_cached_witness:
  "loadImage ''bunny.png'' Finished ex_loaded = Finished (Some (SkImage 1)) ex_loaded \<and>
   loadsStarted (task_state (renderSprite ex_sprite (Finished ()) ex_loaded)) = [] \<and>
   awaits (loadImage ''bunny.png'' Finished ex_renderer) = Some ''bunny.png'' \<and>
   loadsStarted (task_state (loadImage ''bunny.png'' Finished ex_renderer)) = [''bunny.png''] \<and>
   settle (Some (SkImage 1)) ex_renderer (loadImage ''bunny.png'' Finished ex_renderer) =
     Finished (Some (SkImage 1)) ex_loaded"
proof -
  have 1: "imageCache ex_loaded ''bunny.png'' = Some (SkImage 1)"
    by (simp add: ex_loaded_def)
  have 2: "imageCache ex_renderer ''bunny.png'' = None"
    by (simp add: ex_renderer_def)
  have 3: "resource ex_sprite = Some ''bunny.png'' \<and> ''bunny.png'' \<noteq> []"
    by (simp add: ex_sprite_def)
  from load_started_unless_cached
         [where st = ex_loaded and u = "''bunny.png''" and img = "SkImage 1" and k = Finished
            and s = ex_sprite and k' = "Finished ()"] 1 3
  have a: "loadImage ''bunny.png'' Finished ex_loaded = Finished (Some (SkImage 1)) ex_loaded"
    and b: "renderSprite ex_sprite (Finished ()) ex_loaded =
            Finished () (drawSprite ex_sprite (SkImage 1) ex_loaded)"
    by simp_all
  from load_started_unless_cached
         [where st = ex_renderer and u = "''bunny.png''" and k = Finished
            and img' = "SkImage 1" and st' = ex_renderer and s = ex_sprite
            and k' = "Finished ()"] 2
  have c: "awaits (loadImage ''bunny.png'' Finished ex_renderer) = Some ''bunny.png''"
    and d: "task_state (loadImage ''bunny.png'' Finished ex_renderer) =
            ex_renderer\<lparr>loadsStarted := loadsStarted ex_renderer @ [''bunny.png'']\<rparr>"
    and e: "settle (Some (SkImage 1)) ex_renderer (loadImage ''bunny.png'' Finished ex_renderer) =
            Finished (Some (SkImage 1))
              (ex_renderer\<lparr>imageCache := (imageCache ex_renderer)(''bunny.png'' \<mapsto> SkImage 1)\<rparr>)"
    by simp_all
  from a b c d e show ?thesis
    by (simp add: task_state_def drawSprite_def skCanvas_def Let_def ex_loaded_def ex_renderer_def)
qed

text \<open>
  Two requests for the image of \<open>ex_sprite\<close>, the second made while the first is still
  waiting for its load: the second waits for a load too, and two loads of the one
  address have been started.
\<close>

theorem concurrent_requests_load_twice_counterexample:
  "awaits (renderSprite ex_sprite (Finished ()) ex_renderer) = Some ''bunny.png'' \<and>
   awaits (renderSprite ex_sprite (Finished ())
             (task_state (renderSprite ex_sprite (Finished ()) ex_renderer))) =
     Some ''bunny.png'' \<and>
   loadsStarted (task_state (renderSprite ex_sprite (Finished ())
                   (task_state (renderSprite ex_sprite (Finished ()) ex_renderer)))) =
     [''bunny.png'', ''bunny.png'']"
  by (simp add: renderSprite_def loadImage_def awaits_def task_state_def ex_sprite_def
      ex_renderer_def)

text \<open>
  C4, as amended. One walk handles the children strictly in the order of the list, the
  children of a sub-container in its place. The shapes before a sprite are drawn without
  waiting. At a sprite whose image is not in the cache the walk starts that one load and
  is suspended: nothing of the later siblings is drawn and no further load is started
  before this one is settled, and once it is settled the walk goes on with the later
  siblings. All children of the front of a list are handled before the first of the
  rest. Driven to its end, with any outcomes of the loads, the walk leaves the renderer
  that handling the children one after the other leaves, no flush among its calls, and
  then, every child handled, makes the flush as its last call; a walk that a sprite with
  no resource has stopped makes no flush.
\<close>

theorem walk_in_order_flush_last:
  "(resource s = Some u \<and> u \<noteq> [] \<and> imageCache st u = None \<longrightarrow>
      awaits (renderContainer (Sprite s # cs) k st) = Some u \<and>
      task_state (renderContainer (Sprite s # cs) k st) =
        st\<lparr>loadsStarted := loadsStarted st @ [u]\<rparr> \<and>
      settle res st' (renderContainer (Sprite s # cs) k st) =
        renderContainer cs k
          (case res of
             Some img \<Rightarrow> drawSprite s img (st'\<lparr>imageCache := (imageCache st')(u \<mapsto> img)\<rparr>)
           | None \<Rightarrow> console_log ''Error rendering sprite:'' st') \<and>
      awaits (renderContainer (Graphics g # Sprite s # cs) k st) = Some u \<and>
      canvasLog (task_state (renderContainer (Graphics g # Sprite s # cs) k st)) =
        canvasLog st @ drawn g st \<and>
      loadsStarted (task_state (renderContainer (Graphics g # Sprite s # cs) k st)) =
        loadsStarted st @ [u]) \<and>
   renderContainer (cs1 @ cs2) k st =
     renderContainer cs1 (\<lambda>st'. renderContainer cs2 k st') st \<and>
   drive env fenv (render scene st) =
     (case seqWalk env scene (skCanvas [Save, DrawColorWhite, Restore] (st\<lparr>container := scene\<rparr>)) of
        Completed st' \<Rightarrow> (Some (), skCanvas [Flush] st')
      | Stopped st' \<Rightarrow> (None, st')) \<and>
   quiet st (walked_state (seqWalk env scene st))"
proof (intro conjI impI)
  assume a: "resource s = Some u \<and> u \<noteq> [] \<and> imageCache st u = None"
  then show "awaits (renderContainer (Sprite s # cs) k st) = Some u"
    by (simp add: renderSprite_def loadImage_def awaits_def)
  from a show "task_state (renderContainer (Sprite s # cs) k st) =
        st\<lparr>loadsStarted := loadsStarted st @ [u]\<rparr>"
    by (simp add: renderSprite_def loadImage_def task_state_def)
  from a show "settle res st' (renderContainer (Sprite s # cs) k st) =
        renderContainer cs k
          (case res of
             Some img \<Rightarrow> drawSprite s img (st'\<lparr>imageCache := (imageCache st')(u \<mapsto> img)\<rparr>)
           | None \<Rightarrow> console_log ''Error rendering sprite:'' st')"
    by (cases res) (simp_all add: renderSprite_def loadImage_def settle_def)
  from a have b: "imageCache (renderGraphics g st) u = None"
    by (simp add: renderGraphics_frame)
  from a b show "awaits (renderContainer (Graphics g # Sprite s # cs) k st) = Some u"
    by (simp add: renderSprite_def loadImage_def awaits_def)
  from a b show "canvasLog (task_state (renderContainer (Graphics g # Sprite s # cs) k st)) =
        canvasLog st @ drawn g st"
    by (simp add: renderSprite_def loadImage_def task_state_def renderGraphics_log)
  from a b show "loadsStarted (task_state (renderContainer (Graphics g # Sprite s # cs) k st)) =
        loadsStarted st @ [u]"
    by (simp add: renderSprite_def loadImage_def task_state_def renderGraphics_frame)
next
  show "renderContainer (cs1 @ cs2) k st =
     renderContainer cs1 (\<lambda>st'. renderContainer cs2 k st') st"
    by (rule renderContainer_append)
next
  show "drive env fenv (render scene st) =
     (case seqWalk env scene (skCanvas [Save, DrawColorWhite, Restore] (st\<lparr>container := scene\<rparr>)) of
        Completed st' \<Rightarrow> (Some (), skCanvas [Flush] st')
      | Stopped st' \<Rightarrow> (None, st'))"
    by (simp add: render_def renderContainer_seq split: walked.splits)
next
  show "quiet st (walked_state (seqWalk env scene st))"
    by (rule quiet_seqWalk)
qed

text \<open>
  The walk of the rectangle of \<open>ex_rect\<close> followed by \<open>ex_sprite\<close>: the rectangle is on
  the canvas when the walk is suspended on the load of the sprite. The walk of
  \<open>ex_sprite\<close> followed by the rectangle, the load succeeding: the canvas is cleared, the
  sprite drawn, then the rectangle, and the flush comes last. With \<open>ex_blank\<close> in the
  place of the sprite the walk is rejected and makes no flush.
\<close>

theorem walk_in_order_flush_last_witness:
  "awaits (renderContainer [Graphics ex_rect, Sprite ex_sprite] (Finished ()) ex_renderer) =
     Some ''bunny.png'' \<and>
   canvasLog (task_state
       (renderContainer [Graphics ex_rect, Sprite ex_sprite] (Finished ()) ex_renderer)) =
     [DrawPath [AddRect 110 220 170 340]
        \<lparr>paint_style = Fill, paint_color = (0, 0, 1, 1), paint_strokeWidth = 0\<rparr>] \<and>
   loadsStarted (task_state
       (renderContainer [Graphics ex_rect, Sprite ex_sprite] (Finished ()) ex_renderer)) =
     [''bunny.png''] \<and>
   canvasLog (snd (drive (\<lambda>u. Some (SkImage 1)) Map.empty
       (render [Sprite ex_sprite, Graphics ex_rect] ex_renderer))) =
     [Save, DrawColorWhite, Restore,
      Save,
      DrawImageRect (SkImage 1)
        \<lparr>rect_x = 0, rect_y = 0, rect_width = 26, rect_height = 37\<rparr>
        \<lparr>rect_x = 100, rect_y = 200, rect_width = 52, rect_height = 111\<rparr>
        \<lparr>sp_alpha = 1, sp_colorFilter = None\<rparr>,
      Restore,
      DrawPath [AddRect 110 220 170 340]
        \<lparr>paint_style = Fill, paint_color = (0, 0, 1, 1), paint_strokeWidth = 0\<rparr>,
      Flush] \<and>
   fst (drive (\<lambda>u. Some (SkImage 1)) Map.empty
       (render [Sprite ex_blank, Graphics ex_rect] ex_renderer)) = None \<and>
   canvasLog (snd (drive (\<lambda>u. Some (SkImage 1)) Map.empty
       (render [Sprite ex_blank, Graphics ex_rect] ex_renderer))) =
     [Save, DrawColorWhite, Restore]"
proof -
  have 1: "resource ex_sprite = Some ''bunny.png'' \<and> ''bunny.png'' \<noteq> [] \<and>
           imageCache ex_renderer ''bunny.png'' = None"
    by (simp add: ex_sprite_def ex_renderer_def)
  have 2: "drawn ex_rect ex_renderer =
     [DrawPath [AddRect 110 220 170 340]
        \<lparr>paint_style = Fill, paint_color = (0, 0, 1, 1), paint_strokeWidth = 0\<rparr>]"
    by (simp add: paint_defs ex_rect_def ex_matrix_def ex_renderer_def)
  from walk_in_order_flush_last
         [where s = ex_sprite and u = "''bunny.png''" and st = ex_renderer and cs = "[]"
            and k = "Finished ()" and g = ex_rect] 1
  have "awaits (renderContainer [Graphics ex_rect, Sprite ex_sprite] (Finished ()) ex_renderer) =
          Some ''bunny.png''"
    and "canvasLog (task_state
           (renderContainer [Graphics ex_rect, Sprite ex_sprite] (Finished ()) ex_renderer)) =
         canvasLog ex_renderer @ drawn ex_rect ex_renderer"
    and "loadsStarted (task_state
           (renderContainer [Graphics ex_rect, Sprite ex_sprite] (Finished ()) ex_renderer)) =
         loadsStarted ex_renderer @ [''bunny.png'']"
    by blast+
  with 2 have a: "awaits (renderContainer [Graphics ex_rect, Sprite ex_sprite] (Finished ()) ex_renderer) =
     Some ''bunny.png'' \<and>
   canvasLog (task_state
       (renderContainer [Graphics ex_rect, Sprite ex_sprite] (Finished ()) ex_renderer)) =
     [DrawPath [AddRect 110 220 170 340]
        \<lparr>paint_style = Fill, paint_color = (0, 0, 1, 1), paint_strokeWidth = 0\<rparr>] \<and>
   loadsStarted (task_state
       (renderContainer [Graphics ex_rect, Sprite ex_sprite] (Finished ()) ex_renderer)) =
     [''bunny.png'']"
    by (simp add: ex_renderer_def)
  from walk_in_order_flush_last
         [where env = "\<lambda>u. Some (SkImage 1)" and fenv = Map.empty
            and scene = "[Sprite ex_sprite, Graphics ex_rect]" and st = ex_renderer]
  have "drive (\<lambda>u. Some (SkImage 1)) Map.empty
          (render [Sprite ex_sprite, Graphics ex_rect] ex_renderer) =
        (case seqWalk (\<lambda>u. Some (SkImage 1)) [Sprite ex_sprite, Graphics ex_rect]
                (skCanvas [Save, DrawColorWhite, Restore]
                   (ex_renderer\<lparr>container := [Sprite ex_sprite, Graphics ex_rect]\<rparr>)) of
           Completed st' \<Rightarrow> (Some (), skCanvas [Flush] st')
         | Stopped st' \<Rightarrow> (None, st'))"
    by blast
  then have b: "canvasLog (snd (drive (\<lambda>u. Some (SkImage 1)) Map.empty
       (render [Sprite ex_sprite, Graphics ex_rect] ex_renderer))) =
     [Save, DrawColorWhite, Restore,
      Save,
      DrawImageRect (SkImage 1)
        \<lparr>rect_x = 0, rect_y = 0, rect_width = 26, rect_height = 37\<rparr>
        \<lparr>rect_x = 100, rect_y = 200, rect_width = 52, rect_height = 111\<rparr>
        \<lparr>sp_alpha = 1, sp_colorFilter = None\<rparr>,
      Restore,
      DrawPath [AddRect 110 220 170 340]
        \<lparr>paint_style = Fill, paint_color = (0, 0, 1, 1), paint_strokeWidth = 0\<rparr>,
      Flush]"
    by (simp add: seqSprite_def drawSprite_def paint_defs ex_sprite_def ex_rect_def ex_matrix_def
        ex_renderer_def)
  from walk_in_order_flush_last
         [where env = "\<lambda>u. Some (SkImage 1)" and fenv = Map.empty
            and scene = "[Sprite ex_blank, Graphics ex_rect]" and st = ex_renderer]
  have "drive (\<lambda>u. Some (SkImage 1)) Map.empty
          (render [Sprite ex_blank, Graphics ex_rect] ex_renderer) =
        (case seqWalk (\<lambda>u. Some (SkImage 1)) [Sprite ex_blank, Graphics ex_rect]
                (skCanvas [Save, DrawColorWhite, Restore]
                   (ex_renderer\<lparr>container := [Sprite ex_blank, Graphics ex_rect]\<rparr>)) of
           Completed st' \<Rightarrow> (Some (), skCanvas [Flush] st')
         | Stopped st' \<Rightarrow> (None, st'))"
    by blast
  then have c: "fst (drive (\<lambda>u. Some (SkImage 1)) Map.empty
       (render [Sprite ex_blank, Graphics ex_rect] ex_renderer)) = None \<and>
   canvasLog (snd (drive (\<lambda>u. Some (SkImage 1)) Map.empty
       (render [Sprite ex_blank, Graphics ex_rect] ex_renderer))) =
     [Save, DrawColorWhite, Restore]"
    by (simp add: seqSprite_def skCanvas_def ex_blank_def ex_sprite_def ex_renderer_def)
  from a b c show ?thesis by blast
qed

text \<open>
  The walk of \<open>ex_sprite\<close> followed by the rectangle of \<open>ex_rect\<close> and by \<open>ex_sprite2\<close>,
  with an empty cache. While the first load is in flight the canvas has been cleared and
  nothing else: the rectangle waits for the sprite before it, and the load of the second
  sprite has not been started. The rectangle is drawn once the first load is settled.
\<close>

theorem shape_waits_for_sprite_counterexample:
  "awaits (render [Sprite ex_sprite, Graphics ex_rect, Sprite ex_sprite2] ex_renderer) =
     Some ''bunny.png'' \<and>
   canvasLog (task_state
       (render [Sprite ex_sprite, Graphics ex_rect, Sprite ex_sprite2] ex_renderer)) =
     [Save, DrawColorWhite, Restore] \<and>
   loadsStarted (task_state
       (render [Sprite ex_sprite, Graphics ex_rect, Sprite ex_sprite2] ex_renderer)) =
     [''bunny.png''] \<and>
   canvasLog (task_state (settle None
       (task_state (render [Sprite ex_sprite, Graphics ex_rect, Sprite ex_sprite2] ex_renderer))
       (render [Sprite ex_sprite, Graphics ex_rect, Sprite ex_sprite2] ex_renderer))) =
     [Save, DrawColorWhite, Restore,
      DrawPath [AddRect 110 220 170 340]
        \<lparr>paint_style = Fill, paint_color = (0, 0, 1, 1), paint_strokeWidth = 0\<rparr>]"
  by (simp add: render_def renderSprite_def loadImage_def awaits_def task_state_def settle_def
      console_log_def paint_defs ex_sprite_def ex_sprite2_def ex_rect_def ex_matrix_def
      ex_renderer_def)

end
